theory Spec2Isabelle
  imports Main "HOL-Library.Sublist"
begin

section \<open>The sheet reader script (check\_sheet.py)\<close>

text \<open>
  The script authenticates with a service-account key file, lists the worksheets of one
  fixed spreadsheet, picks a worksheet name, and calls the helper \<open>get_sheet_data\<close>,
  which authenticates and lists again, fetches one cell range and prints it. Everything
  the script does to the outside (library calls that may raise, lines printed) is kept
  as a list of events, in the order the script performs them.

  A Python string is a sequence of code points. It is modelled as the \<open>string\<close> that
  holds each code point in its UTF-8 form, one to four bytes. A Python string may hold a
  lone surrogate (U+D800 to U+DFFF), which proper UTF-8 does not have; here it is the
  three bytes that the same bit pattern gives, \<open>ED\<close>, then a byte from \<open>A0\<close> to \<open>BF\<close>, then
  one more. The substring that the script searches for is ASCII, and an ASCII byte never
  occurs inside a multi-byte form, so containment on the bytes is containment on the code
  points.
\<close>

subsection \<open>Exceptions\<close>

text \<open>
  What can be raised: a failure of credential loading or of building the client, a
  failure of a remote request, the \<open>KeyError\<close> of a subscript on a missing key, the
  \<open>UnicodeEncodeError\<close> of a \<open>print\<close>, and the \<open>KeyboardInterrupt\<close> of a user who stops the
  script while it waits in a call. Every constructor but the last carries \<open>str(e)\<close>, the
  text that an f-string prints for the exception; for a \<open>KeyError\<close> that text is the repr
  of the key. An exception of any other class that a library raises is one of the first
  two: the script looks at nothing but the text and at whether the class derives from
  \<open>Exception\<close>.
\<close>

datatype error =
    AuthenticationError string
  | RemoteError string
  | KeyError string
  | UnicodeEncodeError string
  | KeyboardInterrupt

fun message :: "error \<Rightarrow> string" where
  "message (AuthenticationError m) = m"
| "message (RemoteError m) = m"
| "message (KeyError m) = m"
| "message (UnicodeEncodeError m) = m"
| "message KeyboardInterrupt = []"

text \<open>
  What \<open>except Exception\<close> catches: \<open>KeyboardInterrupt\<close> derives from \<open>BaseException\<close> only.
\<close>

fun is_exception :: "error \<Rightarrow> bool" where
  "is_exception KeyboardInterrupt = False"
| "is_exception _ = True"

subsection \<open>Responses of the remote service\<close>

text \<open>
  The responses are dictionaries. The script reads them only through the keys below; a
  field is \<open>None\<close> when the key is absent.
\<close>

record sheet_properties =
  title :: "string option"

record sheet =
  properties :: "sheet_properties option"

record spreadsheet =
  sheets :: "sheet list option"

record value_range =
  range_values :: "string list list option"

text \<open>A worksheet entry as the service sends it: \<open>{'properties': {'title': t}}\<close>.\<close>

definition titled_sheet :: "string \<Rightarrow> sheet" where
  "titled_sheet t = \<lparr>properties = Some \<lparr>title = Some t\<rparr>\<rparr>"

subsection \<open>Events and the outside world\<close>

text \<open>
  What \<open>print\<close> is given: a string, printed as it is, or a row (a list of cell strings),
  printed as Python's repr of that list. Each \<open>print\<close> ends its text with a newline.
\<close>

datatype printed =
    Text string
  | Row "string list"

text \<open>
  An event is a call that leaves the script, with the exception it raised if any, or a
  \<open>print\<close>. \<open>Credentials\<close> is \<open>Credentials.from_service_account_file\<close> (with the fixed key
  file path and the read-only scope), \<open>Build\<close> is \<open>build('sheets', 'v4', ...)\<close>,
  \<open>GetSpreadsheet\<close> is \<open>sheet.get(spreadsheetId=...).execute()\<close> and \<open>GetValues\<close> is
  \<open>sheet.values().get(spreadsheetId=..., range=...).execute()\<close>.
\<close>

datatype event =
    Credentials "error option"
  | Build "error option"
  | GetSpreadsheet string "error option"
  | GetValues string string "error option"
  | Print printed

type_synonym trace = "event list"

text \<open>
  The world answers each call. An answer may depend on everything that happened before
  (a key file that disappears, a request that fails once), so each answer is a function
  of the events so far.
\<close>

record world =
  from_service_account_file :: "trace \<Rightarrow> error option"
  build :: "trace \<Rightarrow> error option"
  spreadsheets_get :: "trace \<Rightarrow> string \<Rightarrow> error + spreadsheet"
  values_get :: "trace \<Rightarrow> string \<Rightarrow> string \<Rightarrow> error + value_range"
  encode_error :: "string \<Rightarrow> string"

text \<open>
  The last field is the text of the \<open>UnicodeEncodeError\<close> that the UTF-8 codec raises for a
  string it cannot encode (it names the position and the character).
\<close>

text \<open>
  A piece of the script takes the events so far and gives its result (\<open>Inl\<close>: the exception
  that leaves it) with the events it added.
\<close>

type_synonym 'a outcome = "(error + 'a) \<times> trace"

fun raised :: "error + 'a \<Rightarrow> error option" where
  "raised (Inl e) = Some e"
| "raised (Inr _) = None"

subsection \<open>Printing\<close>

text \<open>
  Line 8 replaces the standard output by a UTF-8 writer with strict error handling. Such
  a writer cannot encode a lone surrogate: a \<open>print\<close> of a string that holds one writes
  nothing and raises \<open>UnicodeEncodeError\<close>. The repr of a row escapes every surrogate, so
  the \<open>print\<close> of a row always succeeds.
\<close>

fun has_surrogate :: "string \<Rightarrow> bool" where
  "has_surrogate (a # b # cs) =
     ((a = CHR 0xED \<and> (0xA0::nat) \<le> of_char b \<and> (of_char b::nat) \<le> 0xBF)
      \<or> has_surrogate (b # cs))"
| "has_surrogate _ = False"

text \<open>What one \<open>print\<close> raises, if anything.\<close>

fun print_one :: "world \<Rightarrow> printed \<Rightarrow> error option" where
  "print_one w (Text s) =
     (if has_surrogate s then Some (UnicodeEncodeError (encode_error w s)) else None)"
| "print_one w (Row r) = None"

text \<open>
  Some \<open>print\<close> statements in a row: each one that succeeds is an event, the first that
  raises ends them.
\<close>

fun print_all :: "world \<Rightarrow> printed list \<Rightarrow> unit outcome" where
  "print_all w [] = (Inr (), [])"
| "print_all w (p # ps) =
     (case print_one w p of
        Some e \<Rightarrow> (Inl e, [])
      | None \<Rightarrow> (case print_all w ps of (r, evs) \<Rightarrow> (r, Print p # evs)))"

subsection \<open>Literals of the script\<close>

definition SPREADSHEET_ID :: string where
  "SPREADSHEET_ID = ''10Ro4U_7M0w3bEw_5nunNcy6hTB64oba4q5MAwjNNJPM''"

text \<open>
  The initial \<open>SHEET_NAME\<close> (line 57) spells the \<open>c\<close> of Researcher with the Cyrillic
  letter U+0441, in UTF-8 the bytes D1 81. The name of line 83 is all Latin.
\<close>

definition SHEET_NAME :: string where
  "SHEET_NAME = ''PROMT Temp: UX Resear'' @ [CHR 0xD1, CHR 0x81] @ ''her''"

definition SHEET_NAME_variation :: string where
  "SHEET_NAME_variation = ''PROMT Temp: UX Researcher''"

definition RANGE_NAME :: string where
  "RANGE_NAME = ''A1:Z100''"

text \<open>The substring of lines 33 and 70.\<close>

definition target_substring :: string where
  "target_substring = ''PROMT Temp: UX''"

subsection \<open>Substring test\<close>

text \<open>Python's \<open>sub in s\<close> on strings: \<open>sub\<close> occurs in \<open>s\<close> as a contiguous block.\<close>

fun str_contains :: "string \<Rightarrow> string \<Rightarrow> bool" where
  "str_contains sub [] = (sub = [])"
| "str_contains sub (c # cs) = (prefix sub (c # cs) \<or> str_contains sub cs)"

subsection \<open>Authentication (lines 18-21 and 61-63)\<close>

definition authenticate :: "world \<Rightarrow> trace \<Rightarrow> unit outcome" where
  "authenticate w h =
     (case from_service_account_file w h of
        Some e \<Rightarrow> (Inl e, [Credentials (Some e)])
      | None \<Rightarrow>
          (case build w (h @ [Credentials None]) of
             Some e \<Rightarrow> (Inl e, [Credentials None, Build (Some e)])
           | None \<Rightarrow> (Inr (), [Credentials None, Build None])))"

subsection \<open>The helper \<open>get_sheet_data\<close> (lines 14-51)\<close>

text \<open>
  \<open>s['properties']['title']\<close>: each subscript raises \<open>KeyError\<close> on a missing key, with the
  repr of the key, in single quotes, as its text.
\<close>

definition sheet_title :: "sheet \<Rightarrow> error + string" where
  "sheet_title s =
     (case properties s of
        None \<Rightarrow> Inl (KeyError ([CHR 0x27] @ ''properties'' @ [CHR 0x27]))
      | Some p \<Rightarrow>
          (case title p of
             None \<Rightarrow> Inl (KeyError ([CHR 0x27] @ ''title'' @ [CHR 0x27]))
           | Some t \<Rightarrow> Inr t))"

text \<open>\<open>spreadsheet.get('sheets', [])\<close>.\<close>

definition get_sheets :: "spreadsheet \<Rightarrow> sheet list" where
  "get_sheets sp = (case sheets sp of None \<Rightarrow> [] | Some ss \<Rightarrow> ss)"

text \<open>
  The listing loop of lines 30-34: what it prints, in order, and the \<open>KeyError\<close> that ends
  it if a worksheet entry lacks a key.
\<close>

fun print_sheets :: "sheet list \<Rightarrow> (error + unit) \<times> printed list" where
  "print_sheets [] = (Inr (), [])"
| "print_sheets (s # ss) =
     (case sheet_title s of
        Inl e \<Rightarrow> (Inl e, [])
      | Inr t \<Rightarrow>
          (let out = Text (''- '' @ t) #
                 (if str_contains target_substring t
                  then [Text (''  ^^^ Found matching sheet: '' @ t)] else [])
           in case print_sheets ss of (r, rest) \<Rightarrow> (r, out @ rest)))"

text \<open>The range argument of line 40: \<open>f"'{sheet_name}'!{range_name}"\<close>.\<close>

definition range_arg :: "string \<Rightarrow> string \<Rightarrow> string" where
  "range_arg sheet_name range_name =
     [CHR 0x27] @ sheet_name @ [CHR 0x27] @ ''!'' @ range_name"

text \<open>The reporter, lines 42-49: what it prints for a response of \<open>get_values\<close>.\<close>

definition report :: "string \<Rightarrow> string \<Rightarrow> value_range \<Rightarrow> printed list" where
  "report sheet_name range_name result =
     (let vals = (case range_values result of None \<Rightarrow> [] | Some v \<Rightarrow> v)
      in if vals = [] then [Text ''No data found in the specified range.'']
         else Text ([CHR 0x0A] @ ''Data from '' @ sheet_name @ ''!'' @ range_name @ '':'')
                # map Row vals)"

text \<open>
  The body of the \<open>try\<close> of lines 38-49: the request, then the \<open>print\<close> statements of the
  reporter.
\<close>

definition fetch_and_report :: "world \<Rightarrow> string \<Rightarrow> string \<Rightarrow> string \<Rightarrow> trace \<Rightarrow> unit outcome" where
  "fetch_and_report w spreadsheet_id sheet_name range_name h =
     (let rng = range_arg sheet_name range_name
      in case values_get w h spreadsheet_id rng of
           Inl e \<Rightarrow> (Inl e, [GetValues spreadsheet_id rng (Some e)])
         | Inr result \<Rightarrow>
             (case print_all w (report sheet_name range_name result) of
                (res, out) \<Rightarrow> (res, GetValues spreadsheet_id rng None # out)))"

text \<open>
  The whole statement of lines 37-51. The handler \<open>except Exception\<close> catches what the body
  raises when its class derives from \<open>Exception\<close>, and prints it (line 51); that \<open>print\<close>
  is outside every \<open>try\<close> of the helper, so what it raises leaves the helper. Anything else
  that the body raises passes through.
\<close>

definition try_fetch :: "world \<Rightarrow> string \<Rightarrow> string \<Rightarrow> string \<Rightarrow> trace \<Rightarrow> unit outcome" where
  "try_fetch w spreadsheet_id sheet_name range_name h =
     (case fetch_and_report w spreadsheet_id sheet_name range_name h of
        (Inl e, evs) \<Rightarrow>
          (if is_exception e
           then (case print_all w [Text (''Error accessing sheet data: '' @ message e)] of
                   (res, out) \<Rightarrow> (res, evs @ out))
           else (Inl e, evs))
      | (Inr u, evs) \<Rightarrow> (Inr u, evs))"

text \<open>
  Lines 18-34: authenticate, request the spreadsheet, print its worksheet titles. No
  exception is caught here. A \<open>print\<close> that raises ends the loop before any later
  \<open>KeyError\<close>.
\<close>

definition list_sheets :: "world \<Rightarrow> string \<Rightarrow> trace \<Rightarrow> unit outcome" where
  "list_sheets w spreadsheet_id h =
     (case authenticate w h of
        (Inl e, evs1) \<Rightarrow> (Inl e, evs1)
      | (Inr _, evs1) \<Rightarrow>
          (let r = spreadsheets_get w (h @ evs1) spreadsheet_id;
               evs2 = evs1 @ [GetSpreadsheet spreadsheet_id (raised r)]
           in case r of
                Inl e \<Rightarrow> (Inl e, evs2)
              | Inr sp \<Rightarrow>
                  (case print_sheets (get_sheets sp) of
                     (res, out) \<Rightarrow>
                       (case print_all w (Text ''Available sheets:'' # out) of
                          (Inl e, evs3) \<Rightarrow> (Inl e, evs2 @ evs3)
                        | (Inr _, evs3) \<Rightarrow> (res, evs2 @ evs3)))))"

definition get_sheet_data :: "world \<Rightarrow> string \<Rightarrow> string \<Rightarrow> string \<Rightarrow> trace \<Rightarrow> unit outcome" where
  "get_sheet_data w spreadsheet_id sheet_name range_name h =
     (case list_sheets w spreadsheet_id h of
        (Inl e, evs1) \<Rightarrow> (Inl e, evs1)
      | (Inr _, evs1) \<Rightarrow>
          (case try_fetch w spreadsheet_id sheet_name range_name (h @ evs1) of
             (res, evs2) \<Rightarrow> (res, evs1 @ evs2)))"

subsection \<open>The script (lines 53-84)\<close>

text \<open>
  The \<open>for\<close> ... \<open>else\<close> of lines 68-75: the first title that contains the substring ends
  the loop (\<open>break\<close>); \<open>None\<close> when the loop runs to its end.
\<close>

fun find_sheet :: "sheet list \<Rightarrow> error + string option" where
  "find_sheet [] = Inr None"
| "find_sheet (s # ss) =
     (case sheet_title s of
        Inl e \<Rightarrow> Inl e
      | Inr t \<Rightarrow> if str_contains target_substring t then Inr (Some t) else find_sheet ss)"

definition warning_text :: string where
  "warning_text = [CHR 0x0A] @ ''Warning: Could not find sheet with '' @ [CHR 0x27]
       @ ''PROMT Temp: UX'' @ [CHR 0x27] @ '' in the name. Using default name.''"

text \<open>
  The resolver: lines 57 and 68-75. It gives the value of \<open>SHEET_NAME\<close> after the loop and
  what the loop prints.
\<close>

definition resolve_sheet_name :: "spreadsheet \<Rightarrow> (error + string) \<times> printed list" where
  "resolve_sheet_name sp =
     (case find_sheet (get_sheets sp) of
        Inl e \<Rightarrow> (Inl e, [])
      | Inr (Some t) \<Rightarrow> (Inr t, [Text ([CHR 0x0A] @ ''Found matching sheet: '' @ t)])
      | Inr None \<Rightarrow> (Inr SHEET_NAME, [Text warning_text]))"

definition fallback_notice :: printed where
  "fallback_notice = Text ([CHR 0x0A] @ ''Trying with a different sheet name variation...'')"

text \<open>
  The \<open>try\<close> of lines 77-84, given the events so far and the resolved name. The handler
  \<open>except Exception\<close> catches what the first call of the helper raises when its class
  derives from \<open>Exception\<close>. What the handler itself raises, in its \<open>print\<close> statements or
  in the second call of the helper, is not caught by anything.
\<close>

definition read_with_fallback :: "world \<Rightarrow> string \<Rightarrow> trace \<Rightarrow> unit outcome" where
  "read_with_fallback w sheet_name h =
     (case get_sheet_data w SPREADSHEET_ID sheet_name RANGE_NAME h of
        (Inr u, evs) \<Rightarrow> (Inr u, evs)
      | (Inl e, evs) \<Rightarrow>
          (if is_exception e
           then (case print_all w [Text (''Error: '' @ message e), fallback_notice] of
                   (Inl e', out) \<Rightarrow> (Inl e', evs @ out)
                 | (Inr _, out) \<Rightarrow>
                     (let evs1 = evs @ out
                      in case get_sheet_data w SPREADSHEET_ID SHEET_NAME_variation RANGE_NAME
                                (h @ evs1) of
                           (res, evs2) \<Rightarrow> (res, evs1 @ evs2)))
           else (Inl e, evs)))"

text \<open>
  A run of the script. The result \<open>Inl e\<close> is an exception that nothing caught: the
  interpreter prints its traceback and the process ends there.
\<close>

definition main :: "world \<Rightarrow> unit outcome" where
  "main w =
     (case authenticate w [] of
        (Inl e, evs1) \<Rightarrow> (Inl e, evs1)
      | (Inr _, evs1) \<Rightarrow>
          (let r = spreadsheets_get w evs1 SPREADSHEET_ID;
               evs2 = evs1 @ [GetSpreadsheet SPREADSHEET_ID (raised r)]
           in case r of
                Inl e \<Rightarrow> (Inl e, evs2)
              | Inr sp \<Rightarrow>
                  (case resolve_sheet_name sp of
                     (Inl e, out) \<Rightarrow> (Inl e, evs2)
                   | (Inr sheet_name, out) \<Rightarrow>
                       (case print_all w out of
                          (Inl e, evs3) \<Rightarrow> (Inl e, evs2 @ evs3)
                        | (Inr _, evs3) \<Rightarrow>
                            (case read_with_fallback w sheet_name (evs2 @ evs3) of
                               (res, evs4) \<Rightarrow> (res, evs2 @ evs3 @ evs4))))))"

subsection \<open>Reading a trace\<close>

fun is_fetch :: "event \<Rightarrow> bool" where
  "is_fetch (GetValues _ _ _) = True"
| "is_fetch _ = False"

fun is_listing :: "event \<Rightarrow> bool" where
  "is_listing (GetSpreadsheet _ _) = True"
| "is_listing _ = False"

fun is_auth_failure :: "event \<Rightarrow> bool" where
  "is_auth_failure (Credentials (Some _)) = True"
| "is_auth_failure (Build (Some _)) = True"
| "is_auth_failure _ = False"

definition fetch_attempts :: "trace \<Rightarrow> nat" where
  "fetch_attempts evs = length (filter is_fetch evs)"

definition listing_calls :: "trace \<Rightarrow> nat" where
  "listing_calls evs = length (filter is_listing evs)"

definition auth_failures :: "trace \<Rightarrow> nat" where
  "auth_failures evs = length (filter is_auth_failure evs)"

subsection \<open>Some worlds\<close>

text \<open>
  A world in which the key file is good, the client builds, the spreadsheet is always
  \<open>sp\<close> and the answer to a range request depends on the range asked for only. The text
  of an encoding error is cut down to its last part: the runs in these worlds either
  print nothing that cannot be encoded or do not depend on that text.
\<close>

definition steady_world :: "spreadsheet \<Rightarrow> (string \<Rightarrow> error + value_range) \<Rightarrow> world" where
  "steady_world sp answer =
     \<lparr>from_service_account_file = (\<lambda>h. None),
      build = (\<lambda>h. None),
      spreadsheets_get = (\<lambda>h spreadsheet_id. Inr sp),
      values_get = (\<lambda>h spreadsheet_id rng. answer rng),
      encode_error = (\<lambda>s. ''surrogates not allowed'')\<rparr>"

text \<open>
  A spreadsheet with the single worksheet \<open>Sheet1\<close>: a request for a range of any other
  worksheet is rejected by the service.
\<close>

definition missing_sheet_world :: world where
  "missing_sheet_world =
     steady_world \<lparr>sheets = Some [titled_sheet ''Sheet1'']\<rparr>
       (\<lambda>rng. if prefix (range_arg ''Sheet1'' []) rng
              then Inr \<lparr>range_values = Some [[''x'']]\<rparr>
              else Inl (RemoteError (''Unable to parse range: '' @ rng)))"

text \<open>A spreadsheet with a matching worksheet that holds two rows.\<close>

definition two_rows :: value_range where
  "two_rows = \<lparr>range_values = Some [[''a'', ''b''], [''c'', ''d'']]\<rparr>"

definition researcher_spreadsheet :: spreadsheet where
  "researcher_spreadsheet =
     \<lparr>sheets = Some (map titled_sheet [''Sheet1'', ''PROMT Temp: UX Researcher'', ''Other''])\<rparr>"

definition researcher_world :: world where
  "researcher_world = steady_world researcher_spreadsheet (\<lambda>rng. Inr two_rows)"

text \<open>The same, but the key file cannot be read the second time it is loaded.\<close>

fun is_credentials :: "event \<Rightarrow> bool" where
  "is_credentials (Credentials _) = True"
| "is_credentials _ = False"

definition key_lost_once_world :: world where
  "key_lost_once_world =
     researcher_world\<lparr>from_service_account_file :=
       (\<lambda>h. if length (filter is_credentials h) = 1
            then Some (AuthenticationError ''key file not found'') else None)\<rparr>"

text \<open>The same, but the key file can never be read.\<close>

definition no_key_world :: world where
  "no_key_world =
     researcher_world\<lparr>from_service_account_file :=
       (\<lambda>h. Some (AuthenticationError ''key file not found''))\<rparr>"

text \<open>
  The same spreadsheet, but the range asked for is empty: the service then sends a
  response without the key \<open>values\<close>.
\<close>

definition empty_range_world :: world where
  "empty_range_world = steady_world researcher_spreadsheet (\<lambda>rng. Inr \<lparr>range_values = None\<rparr>)"

text \<open>
  The spreadsheet with the single worksheet \<open>Sheet1\<close> again, but the service answers the
  range request with an error whose message ends in a lone surrogate, U+D800.
\<close>

definition surrogate_message :: string where
  "surrogate_message = ''Unable to parse range: '' @ [CHR 0xED, CHR 0xA0, CHR 0x80]"

text \<open>
  The text of the codec's exception for the one string that the runs in this world fail
  to print, \<open>Error accessing sheet data: \<close> followed by that message: the surrogate is its
  code point number 51.
\<close>

definition surrogate_codec_text :: string where
  "surrogate_codec_text =
     [CHR 0x27] @ ''utf-8'' @ [CHR 0x27] @ '' codec can'' @ [CHR 0x27]
     @ ''t encode character '' @ [CHR 0x27, CHR 0x5C] @ ''ud800'' @ [CHR 0x27]
     @ '' in position 51: surrogates not allowed''"

definition surrogate_error_world :: world where
  "surrogate_error_world =
     (steady_world \<lparr>sheets = Some [titled_sheet ''Sheet1'']\<rparr>
        (\<lambda>rng. Inl (RemoteError surrogate_message)))
       \<lparr>encode_error := (\<lambda>s. surrogate_codec_text)\<rparr>"

text \<open>The same spreadsheet, but the user interrupts the script during the range request.\<close>

definition interrupted_world :: world where
  "interrupted_world =
     steady_world \<lparr>sheets = Some [titled_sheet ''Sheet1'']\<rparr> (\<lambda>rng. Inl KeyboardInterrupt)"

text \<open>What lines 18-34 add to the events in these worlds when nothing fails.\<close>

definition researcher_listing :: trace where
  "researcher_listing =
     [Credentials None, Build None, GetSpreadsheet SPREADSHEET_ID None,
      Print (Text ''Available sheets:''),
      Print (Text ''- Sheet1''),
      Print (Text ''- PROMT Temp: UX Researcher''),
      Print (Text ''  ^^^ Found matching sheet: PROMT Temp: UX Researcher''),
      Print (Text ''- Other'')]"

definition sheet1_listing :: trace where
  "sheet1_listing =
     [Credentials None, Build None, GetSpreadsheet SPREADSHEET_ID None,
      Print (Text ''Available sheets:''), Print (Text ''- Sheet1'')]"

section \<open>Facts about the pieces\<close>

lemmas run_defs =
  main_def read_with_fallback_def get_sheet_data_def list_sheets_def try_fetch_def
  fetch_and_report_def report_def authenticate_def resolve_sheet_name_def get_sheets_def
  sheet_title_def titled_sheet_def target_substring_def Let_def steady_world_def
  fallback_notice_def warning_text_def

subsection \<open>Substring containment\<close>

lemma str_contains_iff: "str_contains sub s \<longleftrightarrow> (\<exists>p q. s = p @ sub @ q)"
proof -
  have "str_contains sub s = sublist sub s"
    by (induction s) (auto simp: sublist_Cons_right)
  then show ?thesis by (simp add: sublist_def)
qed

lemma has_target_iff:
  "(\<exists>p q. x = p @ ''PROMT Temp: UX'' @ q) \<longleftrightarrow> str_contains ''PROMT Temp: UX'' x"
  by (simp only: str_contains_iff)

lemma sheet_title_titled [simp]: "sheet_title (titled_sheet t) = Inr t"
  by (simp add: sheet_title_def titled_sheet_def)

lemma find_sheet_no_match:
  "\<forall>x\<in>set ts. \<not> str_contains target_substring x \<Longrightarrow>
     find_sheet (map titled_sheet ts) = Inr None"
  by (induction ts) auto

lemma find_sheet_first_match:
  "\<forall>x\<in>set pre. \<not> str_contains target_substring x \<Longrightarrow> str_contains target_substring t \<Longrightarrow>
     find_sheet (map titled_sheet (pre @ t # post)) = Inr (Some t)"
  by (induction pre) auto

subsection \<open>Events of each piece\<close>

lemma authenticate_Inl:
  "authenticate w h = (Inl e, evs) \<Longrightarrow>
     evs = [Credentials (Some e)] \<or> evs = [Credentials None, Build (Some e)]"
  by (auto simp: authenticate_def split: option.splits)

lemma authenticate_Inr:
  "authenticate w h = (Inr u, evs) \<Longrightarrow> evs = [Credentials None, Build None]"
  by (auto simp: authenticate_def split: option.splits)

lemma filter_is_fetch_Print [simp]: "filter is_fetch (map Print out) = []"
  by (induction out) auto

lemma filter_is_listing_Print [simp]: "filter is_listing (map Print out) = []"
  by (induction out) auto

text \<open>A leading byte other than \<open>ED\<close> does not start a surrogate.\<close>

lemma has_surrogate_Cons [simp]: "a \<noteq> CHR 0xED \<Longrightarrow> has_surrogate (a # s) = has_surrogate s"
  by (cases s) auto

text \<open>Printing adds \<open>Print\<close> events only.\<close>

lemma print_all_no_fetch:
  "print_all w ps = (res, evs) \<Longrightarrow> filter is_fetch evs = [] \<and> filter is_listing evs = []"
  by (induction ps arbitrary: res evs) (auto split: option.splits prod.splits)

lemma fetch_and_report_events:
  "fetch_and_report w sid n r h = (res, evs) \<Longrightarrow>
     \<exists>x rest. evs = GetValues sid (range_arg n r) x # rest
        \<and> filter is_fetch rest = [] \<and> filter is_listing rest = []"
  by (auto simp: fetch_and_report_def Let_def split: sum.splits prod.splits
      dest: print_all_no_fetch)

lemma try_fetch_shape:
  assumes "try_fetch w sid n r h = (res, evs)"
  shows "\<exists>x rest. evs = GetValues sid (range_arg n r) x # rest
        \<and> filter is_fetch rest = [] \<and> filter is_listing rest = []"
proof -
  obtain r0 evs0 where body: "fetch_and_report w sid n r h = (r0, evs0)"
    by (cases "fetch_and_report w sid n r h")
  then obtain x rest where evs0: "evs0 = GetValues sid (range_arg n r) x # rest"
    and quiet: "filter is_fetch rest = [] \<and> filter is_listing rest = []"
    using fetch_and_report_events by blast
  show ?thesis
  proof (cases r0)
    case (Inr u)
    with assms body evs0 quiet show ?thesis
      by (auto simp: try_fetch_def)
  next
    case (Inl e)
    obtain r1 out where pr:
      "print_all w [Text (''Error accessing sheet data: '' @ message e)] = (r1, out)"
      by (cases "print_all w [Text (''Error accessing sheet data: '' @ message e)]")
    then have "filter is_fetch out = [] \<and> filter is_listing out = []"
      by (rule print_all_no_fetch)
    with assms body evs0 quiet Inl pr show ?thesis
      by (cases "is_exception e") (auto simp: try_fetch_def simp del: print_all.simps)
  qed
qed

lemma try_fetch_raises:
  "values_get w h sid (range_arg n r) = Inl e \<Longrightarrow> is_exception e \<Longrightarrow>
   \<not> has_surrogate (message e) \<Longrightarrow>
     try_fetch w sid n r h =
       (Inr (), [GetValues sid (range_arg n r) (Some e),
                 Print (Text (''Error accessing sheet data: '' @ message e))])"
  by (simp add: try_fetch_def fetch_and_report_def)



lemma try_fetch_one_fetch:
  "try_fetch w sid n r h = (res, evs) \<Longrightarrow> length (filter is_fetch evs) = 1"
  by (drule try_fetch_shape) auto

lemma list_sheets_auth_fails:
  "authenticate w h = (Inl e, evs) \<Longrightarrow> list_sheets w sid h = (Inl e, evs)"
  by (simp add: list_sheets_def)

lemma list_sheets_no_fetch:
  "list_sheets w sid h = (res, evs) \<Longrightarrow> filter is_fetch evs = []"
  by (auto simp: list_sheets_def Let_def split: sum.splits prod.splits if_splits
      dest!: authenticate_Inl authenticate_Inr print_all_no_fetch)

lemma get_sheet_data_auth_fails:
  "authenticate w h = (Inl e, evs) \<Longrightarrow> get_sheet_data w sid n r h = (Inl e, evs)"
  by (simp add: get_sheet_data_def list_sheets_auth_fails)

lemma get_sheet_data_after_listing:
  "list_sheets w sid h = (Inr u, pre) \<Longrightarrow>
     get_sheet_data w sid n r h =
       (fst (try_fetch w sid n r (h @ pre)), pre @ snd (try_fetch w sid n r (h @ pre)))"
  by (cases "try_fetch w sid n r (h @ pre)") (simp add: get_sheet_data_def)

lemma filter_is_listing_auth:
  "authenticate w h = (res, evs) \<Longrightarrow> filter is_listing evs = [] \<and> filter is_fetch evs = []"
  by (cases res) (auto dest!: authenticate_Inl authenticate_Inr)

lemma list_sheets_researcher:
  "list_sheets (steady_world researcher_spreadsheet answer) SPREADSHEET_ID h = (Inr (), researcher_listing)"
  by (simp add: run_defs researcher_spreadsheet_def researcher_listing_def)

lemma list_sheets_sheet1:
  "list_sheets (steady_world \<lparr>sheets = Some [titled_sheet ''Sheet1'']\<rparr> answer) SPREADSHEET_ID h
     = (Inr (), sheet1_listing)"
  by (simp add: run_defs sheet1_listing_def)

text \<open>A call of the helper fetches at most once, and not at all when lines 18-34 raise.\<close>

lemma get_sheet_data_fetches:
  assumes "get_sheet_data w sid n r h = (res, evs)"
  shows "length (filter is_fetch evs) \<le> 1"
proof (cases "list_sheets w sid h")
  case (Pair lr pre)
  have quiet: "filter is_fetch pre = []"
    using Pair by (rule list_sheets_no_fetch)
  show ?thesis
  proof (cases lr)
    case (Inl e)
    with Pair assms quiet show ?thesis
      by (auto simp: get_sheet_data_def)
  next
    case (Inr u)
    obtain r2 evs2 where tf: "try_fetch w sid n r (h @ pre) = (r2, evs2)"
      by (cases "try_fetch w sid n r (h @ pre)")
    have "length (filter is_fetch evs2) = 1"
      using tf by (rule try_fetch_one_fetch)
    with Pair Inr tf assms quiet show ?thesis
      by (auto simp: get_sheet_data_def)
  qed
qed

lemma read_with_fallback_fetches:
  assumes "read_with_fallback w n h = (res, evs)"
  shows "length (filter is_fetch evs) \<le> 2"
proof -
  obtain r1 evs1 where first: "get_sheet_data w SPREADSHEET_ID n RANGE_NAME h = (r1, evs1)"
    by (cases "get_sheet_data w SPREADSHEET_ID n RANGE_NAME h")
  have one: "length (filter is_fetch evs1) \<le> 1"
    using first by (rule get_sheet_data_fetches)
  show ?thesis
  proof (cases r1)
    case (Inr u)
    with assms first one show ?thesis
      by (auto simp: read_with_fallback_def)
  next
    case (Inl e)
    obtain r2 out where pr:
      "print_all w [Text (''Error: '' @ message e), fallback_notice] = (r2, out)"
      by (cases "print_all w [Text (''Error: '' @ message e), fallback_notice]")
    then have quiet: "filter is_fetch out = []"
      by (rule print_all_no_fetch [THEN conjunct1])
    obtain r3 evs3 where second:
      "get_sheet_data w SPREADSHEET_ID SHEET_NAME_variation RANGE_NAME (h @ evs1 @ out)
         = (r3, evs3)"
      by (cases "get_sheet_data w SPREADSHEET_ID SHEET_NAME_variation RANGE_NAME (h @ evs1 @ out)")
    have two: "length (filter is_fetch evs3) \<le> 1"
      using second by (rule get_sheet_data_fetches)
    show ?thesis
    proof (cases "is_exception e")
      case False
      with assms first one Inl show ?thesis
        by (auto simp: read_with_fallback_def)
    next
      case True
      show ?thesis
      proof (cases r2)
        case (Inl e2)
        with assms first one \<open>r1 = Inl e\<close> True pr quiet show ?thesis
          by (auto simp: read_with_fallback_def simp del: print_all.simps)
      next
        case (Inr u)
        with assms first one \<open>r1 = Inl e\<close> True pr quiet second two show ?thesis
          by (auto simp: read_with_fallback_def Let_def simp del: print_all.simps)
      qed
    qed
  qed
qed

text \<open>
  What the handler of line 79 does with the other exceptions that leave the first call
  of the helper: one whose class does not derive from \<open>Exception\<close> passes through, and
  when the text of the exception cannot be encoded, the \<open>print\<close> of line 80 raises. In
  both cases the run ends there, with no fallback call.
\<close>

lemma uncaught_or_unprintable_ends_the_run:
  "(get_sheet_data w SPREADSHEET_ID sheet_name RANGE_NAME h = (Inl e, evs) \<and> \<not> is_exception e
      \<longrightarrow> read_with_fallback w sheet_name h = (Inl e, evs))
   \<and> (get_sheet_data w SPREADSHEET_ID sheet_name RANGE_NAME h = (Inl e, evs)
        \<and> is_exception e \<and> has_surrogate (message e)
      \<longrightarrow> read_with_fallback w sheet_name h =
            (Inl (UnicodeEncodeError (encode_error w (''Error: '' @ message e))), evs))"
  by (simp add: read_with_fallback_def)

text \<open>
  No run fetches more than twice: each call of the helper fetches at most once, and the
  helper is called at most twice.
\<close>

lemma main_fetches: "fetch_attempts (snd (main w)) \<le> 2"
  by (auto simp del: print_all.simps
      simp: main_def Let_def fetch_attempts_def split: sum.splits prod.splits
      dest!: authenticate_Inl authenticate_Inr read_with_fallback_fetches
        print_all_no_fetch)

section \<open>The claims\<close>

subsection \<open>C1: a failed fetch and the fallback\<close>

text \<open>
  Claim C1: if the primary fetch of the cell range raises, the program attempts exactly
  one fallback fetch with the alternate worksheet-name spelling, and never a third fetch.

  The script does not do this. In the run below the spreadsheet has the single worksheet
  \<open>Sheet1\<close>; no title matches, so the first call of the helper asks for the default name
  and the service rejects the range. The handler inside the helper (line 50) catches
  the exception and prints it, the helper returns, and the handler of line 79 that holds
  the fallback call is never entered: the run makes one fetch attempt and ends.
\<close>

theorem fetch_failure_is_not_retried:
  "main missing_sheet_world =
     (Inr (),
      [Credentials None, Build None, GetSpreadsheet SPREADSHEET_ID None,
       Print (Text warning_text),
       Credentials None, Build None, GetSpreadsheet SPREADSHEET_ID None,
       Print (Text ''Available sheets:''), Print (Text ''- Sheet1''),
       GetValues SPREADSHEET_ID (CHR 0x27 # SHEET_NAME @ CHR 0x27 # ''!A1:Z100'')
         (Some (RemoteError (''Unable to parse range: ''
                               @ CHR 0x27 # SHEET_NAME @ CHR 0x27 # ''!A1:Z100''))),
       Print (Text (''Error accessing sheet data: Unable to parse range: ''
                      @ CHR 0x27 # SHEET_NAME @ CHR 0x27 # ''!A1:Z100''))])
   \<and> fetch_attempts (snd (main missing_sheet_world)) = 1
   \<and> Print fallback_notice \<notin> set (snd (main missing_sheet_world))"
  by (simp add: run_defs missing_sheet_world_def range_arg_def SHEET_NAME_def RANGE_NAME_def
      fetch_attempts_def fallback_notice_def warning_text_def)

subsection \<open>C3 and C7: the resolver\<close>

text \<open>
  Claim C3: for every list of worksheet titles, the resolver selects the first title, in
  listed order, that contains the target substring (plain containment: the title is some
  prefix, then the substring character for character, then some suffix); if no title
  contains it, the default worksheet name is used and the warning is printed.
\<close>

theorem resolver_picks_first_match:
  "(titles = pre @ t # post
      \<and> (\<forall>x\<in>set pre. \<not> (\<exists>p q. x = p @ ''PROMT Temp: UX'' @ q))
      \<and> (\<exists>p q. t = p @ ''PROMT Temp: UX'' @ q)
    \<longrightarrow> resolve_sheet_name \<lparr>sheets = Some (map titled_sheet titles)\<rparr>
          = (Inr t, [Text (CHR 0x0A # ''Found matching sheet: '' @ t)]))
   \<and> ((\<forall>x\<in>set titles. \<not> (\<exists>p q. x = p @ ''PROMT Temp: UX'' @ q))
    \<longrightarrow> resolve_sheet_name \<lparr>sheets = Some (map titled_sheet titles)\<rparr>
          = (Inr SHEET_NAME, [Text warning_text]))"
proof (intro conjI impI)
  assume a: "titles = pre @ t # post
      \<and> (\<forall>x\<in>set pre. \<not> (\<exists>p q. x = p @ ''PROMT Temp: UX'' @ q))
      \<and> (\<exists>p q. t = p @ ''PROMT Temp: UX'' @ q)"
  then have "\<forall>x\<in>set pre. \<not> str_contains target_substring x"
    and "str_contains target_substring t"
    by (simp_all add: str_contains_iff target_substring_def)
  then have "find_sheet (map titled_sheet (pre @ t # post)) = Inr (Some t)"
    by (rule find_sheet_first_match)
  with a show "resolve_sheet_name \<lparr>sheets = Some (map titled_sheet titles)\<rparr>
          = (Inr t, [Text (CHR 0x0A # ''Found matching sheet: '' @ t)])"
    by (simp add: resolve_sheet_name_def get_sheets_def)
next
  assume "\<forall>x\<in>set titles. \<not> (\<exists>p q. x = p @ ''PROMT Temp: UX'' @ q)"
  then have "\<forall>x\<in>set titles. \<not> str_contains target_substring x"
    by (simp add: str_contains_iff target_substring_def)
  then have "find_sheet (map titled_sheet titles) = Inr None"
    by (rule find_sheet_no_match)
  then show "resolve_sheet_name \<lparr>sheets = Some (map titled_sheet titles)\<rparr>
          = (Inr SHEET_NAME, [Text warning_text])"
    by (simp add: resolve_sheet_name_def get_sheets_def)
qed

text \<open>
  Two title lists: in the first the second title is the first match (the first title
  differs from the substring in case only, the third matches too); in the second no
  title matches.
\<close>

theorem resolver_picks_first_match_witness:
  "resolve_sheet_name
     \<lparr>sheets = Some (map titled_sheet
        [''promt temp: ux'', ''My PROMT Temp: UX 1'', ''PROMT Temp: UX 2''])\<rparr>
     = (Inr ''My PROMT Temp: UX 1'',
        [Text (CHR 0x0A # ''Found matching sheet: My PROMT Temp: UX 1'')])
   \<and> resolve_sheet_name \<lparr>sheets = Some (map titled_sheet [''Sheet1'', ''promt temp: ux''])\<rparr>
     = (Inr SHEET_NAME, [Text warning_text])"
proof -
  have first: "[''promt temp: ux'', ''My PROMT Temp: UX 1'', ''PROMT Temp: UX 2'']
        = [''promt temp: ux''] @ ''My PROMT Temp: UX 1'' # [''PROMT Temp: UX 2'']
      \<and> (\<forall>x\<in>set [''promt temp: ux'']. \<not> (\<exists>p q. x = p @ ''PROMT Temp: UX'' @ q))
      \<and> (\<exists>p q. ''My PROMT Temp: UX 1'' = p @ ''PROMT Temp: UX'' @ q)"
    by (simp only: has_target_iff) simp
  have none: "\<forall>x\<in>set [''Sheet1'', ''promt temp: ux''].
      \<not> (\<exists>p q. x = p @ ''PROMT Temp: UX'' @ q)"
    by (simp only: has_target_iff) simp
  show ?thesis
    using resolver_picks_first_match [THEN conjunct1, THEN mp, OF first]
      resolver_picks_first_match [THEN conjunct2, THEN mp, OF none]
    by simp
qed

text \<open>
  Claim C7: for the worksheet titles Sheet1, PROMT Temp: UX Researcher, Other and the
  target substring PROMT Temp: UX, the resolved worksheet name is
  PROMT Temp: UX Researcher.
\<close>

theorem resolver_example:
  "target_substring = ''PROMT Temp: UX''
   \<and> fst (resolve_sheet_name
        \<lparr>sheets = Some [titled_sheet ''Sheet1'', titled_sheet ''PROMT Temp: UX Researcher'',
                        titled_sheet ''Other'']\<rparr>)
     = Inr ''PROMT Temp: UX Researcher''"
  by (simp add: resolve_sheet_name_def get_sheets_def target_substring_def)

subsection \<open>C5, C6 and C9: the reporter\<close>

text \<open>
  Claim C5, as stated: for the rows a, b and c, d the reporter prints exactly two lines,
  the two rows. It does not: line 47 prints a header before the rows, so the two rows
  alone are not what the reporter prints.
\<close>

theorem two_rows_are_not_all_the_output:
  "report ''PROMT Temp: UX Researcher'' ''A1:Z100''
     \<lparr>range_values = Some [[''a'', ''b''], [''c'', ''d'']]\<rparr>
   \<noteq> [Row [''a'', ''b''], Row [''c'', ''d'']]"
  by (simp add: report_def)

text \<open>
  Claim C5, amended: for the rows a, b and c, d the reporter prints one header (an empty
  line and the line \<open>Data from <sheet>!<range>:\<close>) and then exactly two lines, each the
  literal row, in the order returned, neither sorted nor deduplicated.
\<close>

theorem report_two_rows:
  "report sheet_name range_name \<lparr>range_values = Some [[''a'', ''b''], [''c'', ''d'']]\<rparr>
   = [Text (CHR 0x0A # ''Data from '' @ sheet_name @ ''!'' @ range_name @ '':''),
      Row [''a'', ''b''], Row [''c'', ''d'']]"
  by (simp add: report_def)

text \<open>
  Claim C6: for a response whose values list is empty, the reporter prints exactly the
  "no data" notice and nothing else.
\<close>

theorem report_empty_values:
  "report sheet_name range_name \<lparr>range_values = Some []\<rparr>
   = [Text ''No data found in the specified range.'']"
  by (simp add: report_def)

text \<open>
  Claim C9: a response that lacks the key \<open>values\<close> is treated like one whose values list is
  empty: the reporter prints the "no data" notice, and the helper returns without an
  exception.
\<close>

theorem missing_values_key_is_no_data:
  "report sheet_name range_name \<lparr>range_values = None\<rparr>
     = report sheet_name range_name \<lparr>range_values = Some []\<rparr>
   \<and> report sheet_name range_name \<lparr>range_values = None\<rparr>
     = [Text ''No data found in the specified range.'']
   \<and> (list_sheets w spreadsheet_id h = (Inr (), pre)
        \<and> values_get w (h @ pre) spreadsheet_id (range_arg sheet_name range_name)
            = Inr \<lparr>range_values = None\<rparr>
      \<longrightarrow> get_sheet_data w spreadsheet_id sheet_name range_name h =
            (Inr (), pre @ [GetValues spreadsheet_id (range_arg sheet_name range_name) None,
                            Print (Text ''No data found in the specified range.'')]))"
  by (simp add: get_sheet_data_after_listing try_fetch_def fetch_and_report_def report_def)

text \<open>The run of the helper in a world whose answer to the range request has no \<open>values\<close>.\<close>

theorem missing_values_key_is_no_data_witness:
  "get_sheet_data empty_range_world SPREADSHEET_ID SHEET_NAME_variation RANGE_NAME [] =
     (Inr (), researcher_listing @
        [GetValues SPREADSHEET_ID (range_arg SHEET_NAME_variation RANGE_NAME) None,
         Print (Text ''No data found in the specified range.'')])"
proof -
  have h: "list_sheets empty_range_world SPREADSHEET_ID [] = (Inr (), researcher_listing)
      \<and> values_get empty_range_world ([] @ researcher_listing) SPREADSHEET_ID
          (range_arg SHEET_NAME_variation RANGE_NAME) = Inr \<lparr>range_values = None\<rparr>"
    by (simp add: empty_range_world_def list_sheets_researcher) (simp add: steady_world_def)
  show ?thesis
    using missing_values_key_is_no_data
      [of SHEET_NAME_variation RANGE_NAME empty_range_world SPREADSHEET_ID "[]" researcher_listing,
       THEN conjunct2, THEN conjunct2, THEN mp, OF h]
    by simp
qed

subsection \<open>C8 and C10: the fetch inside the helper\<close>



text \<open>
  Claim C10, as stated: for every exception raised by the fetch, the helper catches it,
  prints a diagnostic line and returns normally. Two calls of the helper in which lines
  18-34 run without an exception and the fetch raises show otherwise. In the first the
  text of the exception holds a lone surrogate: the handler of line 50 catches the
  exception, its \<open>print\<close> (line 51) cannot encode the text and raises
  \<open>UnicodeEncodeError\<close>, and that exception leaves the helper with no diagnostic line
  printed. In the second the fetch is interrupted by the user: \<open>except Exception\<close> does not
  catch \<open>KeyboardInterrupt\<close>, which leaves the helper.
\<close>

theorem fetch_failure_can_leave_the_helper:
  "get_sheet_data surrogate_error_world SPREADSHEET_ID SHEET_NAME RANGE_NAME [] =
     (Inl (UnicodeEncodeError surrogate_codec_text),
      sheet1_listing @
        [GetValues SPREADSHEET_ID (range_arg SHEET_NAME RANGE_NAME)
           (Some (RemoteError surrogate_message))])
   \<and> get_sheet_data interrupted_world SPREADSHEET_ID SHEET_NAME RANGE_NAME [] =
     (Inl KeyboardInterrupt,
      sheet1_listing @
        [GetValues SPREADSHEET_ID (range_arg SHEET_NAME RANGE_NAME) (Some KeyboardInterrupt)])"
  by (simp add: run_defs surrogate_error_world_def interrupted_world_def
      surrogate_message_def sheet1_listing_def)

text \<open>
  Claim C10, amended: once lines 18-34 have run without an exception, every exception
  that the fetch raises, of a class that derives from \<open>Exception\<close> and with a text that
  holds no lone surrogate, is caught by the helper: it prints the one diagnostic line
  \<open>Error accessing sheet data: \<close> with that text and returns normally.
\<close>

theorem fetch_failure_is_caught:
  assumes "list_sheets w spreadsheet_id h = (Inr (), pre)"
    and "values_get w (h @ pre) spreadsheet_id (range_arg sheet_name range_name) = Inl e"
    and "is_exception e"
    and "\<not> has_surrogate (message e)"
  shows "get_sheet_data w spreadsheet_id sheet_name range_name h =
           (Inr (), pre @ [GetValues spreadsheet_id (range_arg sheet_name range_name) (Some e),
                           Print (Text (''Error accessing sheet data: '' @ message e))])"
  using assms by (simp add: get_sheet_data_after_listing try_fetch_raises)

text \<open>The rejected range request of the spreadsheet that has only \<open>Sheet1\<close>.\<close>

theorem fetch_failure_is_caught_witness:
  "get_sheet_data missing_sheet_world SPREADSHEET_ID SHEET_NAME RANGE_NAME [] =
     (Inr (), sheet1_listing @
        [GetValues SPREADSHEET_ID (range_arg SHEET_NAME RANGE_NAME)
           (Some (RemoteError (''Unable to parse range: '' @ range_arg SHEET_NAME RANGE_NAME))),
         Print (Text (''Error accessing sheet data: Unable to parse range: ''
                        @ range_arg SHEET_NAME RANGE_NAME))])"
proof -
  let ?e = "RemoteError (''Unable to parse range: '' @ range_arg SHEET_NAME RANGE_NAME)"
  have listing: "list_sheets missing_sheet_world SPREADSHEET_ID [] = (Inr (), sheet1_listing)"
    by (simp add: missing_sheet_world_def list_sheets_sheet1)
  have fetch: "values_get missing_sheet_world ([] @ sheet1_listing) SPREADSHEET_ID
      (range_arg SHEET_NAME RANGE_NAME) = Inl ?e"
    by (simp add: missing_sheet_world_def steady_world_def range_arg_def SHEET_NAME_def)
  have caught: "is_exception ?e"
    by simp
  have plain: "\<not> has_surrogate (message ?e)"
    by (simp add: range_arg_def SHEET_NAME_def RANGE_NAME_def)
  show ?thesis
    using fetch_failure_is_caught [OF listing fetch caught plain] by simp
qed

text \<open>
  In the first of the two worlds of the counterexample the exception that leaves the
  first call of the helper is caught by the handler of line 79, so the script fetches a
  second time: the bound of \<open>main_fetches\<close> is reached.
\<close>

lemma second_fetch_after_failed_print:
  "fetch_attempts (snd (main surrogate_error_world)) = 2
   \<and> fst (main surrogate_error_world) = Inl (UnicodeEncodeError surrogate_codec_text)"
  by (simp add: run_defs surrogate_error_world_def surrogate_message_def
      surrogate_codec_text_def fetch_attempts_def)

subsection \<open>C2 and C4: failures of authentication\<close>

text \<open>
  Claim C2, as stated: in every run in which authentication fails, the program
  terminates with the error and no fallback attempt of any kind is made. The script
  loads the key file again at the start of each call of the helper (line 18), and the
  handler of line 79 catches every exception of the first call. In the run below the
  key file is readable at line 61 and unreadable at line 18: the error is printed, the
  fallback call is made, and the run ends normally with the data printed.
\<close>

theorem authentication_failure_in_helper_starts_fallback:
  "main key_lost_once_world =
     (Inr (),
      [Credentials None, Build None, GetSpreadsheet SPREADSHEET_ID None,
       Print (Text (CHR 0x0A # ''Found matching sheet: PROMT Temp: UX Researcher'')),
       Credentials (Some (AuthenticationError ''key file not found'')),
       Print (Text ''Error: key file not found''),
       Print fallback_notice,
       Credentials None, Build None, GetSpreadsheet SPREADSHEET_ID None,
       Print (Text ''Available sheets:''),
       Print (Text ''- Sheet1''),
       Print (Text ''- PROMT Temp: UX Researcher''),
       Print (Text ''  ^^^ Found matching sheet: PROMT Temp: UX Researcher''),
       Print (Text ''- Other''),
       GetValues SPREADSHEET_ID
         (CHR 0x27 # ''PROMT Temp: UX Researcher'' @ CHR 0x27 # ''!A1:Z100'') None,
       Print (Text (CHR 0x0A # ''Data from PROMT Temp: UX Researcher!A1:Z100:'')),
       Print (Row [''a'', ''b'']), Print (Row [''c'', ''d''])])
   \<and> auth_failures (snd (main key_lost_once_world)) = 1
   \<and> Print fallback_notice \<in> set (snd (main key_lost_once_world))"
  by (simp add: run_defs key_lost_once_world_def researcher_world_def researcher_spreadsheet_def
      two_rows_def range_arg_def SHEET_NAME_variation_def RANGE_NAME_def
      auth_failures_def fallback_notice_def)

text \<open>
  Claim C2, amended: a failure of the script's own authentication (lines 61-63) is
  fatal: the run ends there with that exception uncaught, and nothing but the failed
  authentication has happened, so no fallback attempt is made. A failure of the
  authentication inside the first call of the helper is not fatal: the handler of
  line 79 prints it and makes the fallback call, whose outcome is the outcome of the
  \<open>try\<close> statement. Here a failure of authentication is an exception of a class that
  derives from \<open>Exception\<close>, with a text that the standard output can encode (one that
  holds no lone surrogate).
\<close>

theorem initial_authentication_failure_is_fatal:
  "(authenticate w [] = (Inl e, evs)
      \<longrightarrow> main w = (Inl e, evs)
          \<and> (evs = [Credentials (Some e)] \<or> evs = [Credentials None, Build (Some e)]))
   \<and> (authenticate w h = (Inl e, evs) \<and> is_exception e \<and> \<not> has_surrogate (message e)
      \<longrightarrow> read_with_fallback w sheet_name h =
            (case get_sheet_data w SPREADSHEET_ID SHEET_NAME_variation RANGE_NAME
                    (h @ evs @ [Print (Text (''Error: '' @ message e)), Print fallback_notice]) of
               (res, evs2) \<Rightarrow>
                 (res, evs @ [Print (Text (''Error: '' @ message e)), Print fallback_notice] @ evs2)))"
proof (intro conjI impI)
  assume a: "authenticate w [] = (Inl e, evs)"
  then show "main w = (Inl e, evs)"
    by (simp add: main_def)
  from a show "evs = [Credentials (Some e)] \<or> evs = [Credentials None, Build (Some e)]"
    by (rule authenticate_Inl)
next
  assume a: "authenticate w h = (Inl e, evs) \<and> is_exception e \<and> \<not> has_surrogate (message e)"
  then have "get_sheet_data w SPREADSHEET_ID sheet_name RANGE_NAME h = (Inl e, evs)"
    by (intro get_sheet_data_auth_fails) simp
  with a show "read_with_fallback w sheet_name h =
            (case get_sheet_data w SPREADSHEET_ID SHEET_NAME_variation RANGE_NAME
                    (h @ evs @ [Print (Text (''Error: '' @ message e)), Print fallback_notice]) of
               (res, evs2) \<Rightarrow>
                 (res, evs @ [Print (Text (''Error: '' @ message e)), Print fallback_notice] @ evs2))"
    by (simp add: read_with_fallback_def fallback_notice_def)
qed

text \<open>
  A run in which the key file can never be read, and the \<open>try\<close> statement of a run in
  which it cannot be read the second time.
\<close>

theorem initial_authentication_failure_is_fatal_witness:
  "main no_key_world =
     (Inl (AuthenticationError ''key file not found''),
      [Credentials (Some (AuthenticationError ''key file not found''))])
   \<and> read_with_fallback key_lost_once_world ''PROMT Temp: UX Researcher''
        [Credentials None, Build None, GetSpreadsheet SPREADSHEET_ID None,
         Print (Text (CHR 0x0A # ''Found matching sheet: PROMT Temp: UX Researcher''))]
     = (Inr (),
        [Credentials (Some (AuthenticationError ''key file not found'')),
         Print (Text ''Error: key file not found''), Print fallback_notice]
        @ researcher_listing @
        [GetValues SPREADSHEET_ID (range_arg SHEET_NAME_variation RANGE_NAME) None,
         Print (Text (CHR 0x0A # ''Data from PROMT Temp: UX Researcher!A1:Z100:'')),
         Print (Row [''a'', ''b'']), Print (Row [''c'', ''d''])])"
proof -
  let ?e = "AuthenticationError ''key file not found''"
  let ?h = "[Credentials None, Build None, GetSpreadsheet SPREADSHEET_ID None,
         Print (Text (CHR 0x0A # ''Found matching sheet: PROMT Temp: UX Researcher''))]"
  have first: "authenticate no_key_world [] = (Inl ?e, [Credentials (Some ?e)])"
    by (simp add: authenticate_def no_key_world_def)
  have second: "authenticate key_lost_once_world ?h = (Inl ?e, [Credentials (Some ?e)])
      \<and> is_exception ?e \<and> \<not> has_surrogate (message ?e)"
    by (simp add: authenticate_def key_lost_once_world_def)
  have retry: "get_sheet_data key_lost_once_world SPREADSHEET_ID SHEET_NAME_variation RANGE_NAME
      (?h @ [Credentials (Some ?e)] @ [Print (Text (''Error: '' @ message ?e)), Print fallback_notice])
      = (Inr (), researcher_listing @
        [GetValues SPREADSHEET_ID (range_arg SHEET_NAME_variation RANGE_NAME) None,
         Print (Text (CHR 0x0A # ''Data from PROMT Temp: UX Researcher!A1:Z100:'')),
         Print (Row [''a'', ''b'']), Print (Row [''c'', ''d''])])"
    by (simp add: run_defs key_lost_once_world_def researcher_world_def researcher_spreadsheet_def
        researcher_listing_def two_rows_def SHEET_NAME_variation_def RANGE_NAME_def)
  show ?thesis
    using initial_authentication_failure_is_fatal [THEN conjunct1, THEN mp, OF first]
      initial_authentication_failure_is_fatal [THEN conjunct2, THEN mp, OF second,
        of "''PROMT Temp: UX Researcher''"]
      retry
    by simp
qed

text \<open>
  Claim C4, as stated: in every run in which authentication fails, no listing call and no
  fetch call is ever attempted. In the run in which the key file is unreadable the second
  time it is loaded, the failed authentication is the fifth event; the script has listed
  once before it, and the fallback call lists and fetches after it.
\<close>

theorem listing_and_fetch_after_authentication_failure:
  "auth_failures (snd (main key_lost_once_world)) = 1
   \<and> snd (main key_lost_once_world) ! 4
       = Credentials (Some (AuthenticationError ''key file not found''))
   \<and> snd (main key_lost_once_world) ! 9 = GetSpreadsheet SPREADSHEET_ID None
   \<and> snd (main key_lost_once_world) ! 15
       = GetValues SPREADSHEET_ID (range_arg SHEET_NAME_variation RANGE_NAME) None
   \<and> listing_calls (snd (main key_lost_once_world)) = 2
   \<and> fetch_attempts (snd (main key_lost_once_world)) = 1"
  by (simp add: run_defs key_lost_once_world_def researcher_world_def researcher_spreadsheet_def
      two_rows_def SHEET_NAME_variation_def RANGE_NAME_def
      auth_failures_def listing_calls_def fetch_attempts_def)

text \<open>
  Claim C4, amended: in every run in which the script's own authentication (lines 61-63,
  the first step of the run) fails, no listing call and no fetch call is ever attempted;
  and a call of the helper whose authentication fails attempts no listing and no fetch
  itself.
\<close>

theorem authentication_failure_short_circuits:
  "(authenticate w [] = (Inl e, evs)
      \<longrightarrow> listing_calls (snd (main w)) = 0 \<and> fetch_attempts (snd (main w)) = 0)
   \<and> (authenticate w h = (Inl e, evs)
      \<longrightarrow> listing_calls (snd (get_sheet_data w spreadsheet_id sheet_name range_name h)) = 0
          \<and> fetch_attempts (snd (get_sheet_data w spreadsheet_id sheet_name range_name h)) = 0)"
proof (intro conjI impI)
  assume a: "authenticate w [] = (Inl e, evs)"
  then have quiet: "filter is_listing evs = [] \<and> filter is_fetch evs = []"
    by (rule filter_is_listing_auth)
  from a have "main w = (Inl e, evs)"
    by (simp add: main_def)
  with quiet show "listing_calls (snd (main w)) = 0" and "fetch_attempts (snd (main w)) = 0"
    by (simp_all add: listing_calls_def fetch_attempts_def)
next
  assume a: "authenticate w h = (Inl e, evs)"
  then have quiet: "filter is_listing evs = [] \<and> filter is_fetch evs = []"
    by (rule filter_is_listing_auth)
  from a have "get_sheet_data w spreadsheet_id sheet_name range_name h = (Inl e, evs)"
    by (rule get_sheet_data_auth_fails)
  with quiet show "listing_calls (snd (get_sheet_data w spreadsheet_id sheet_name range_name h)) = 0"
    and "fetch_attempts (snd (get_sheet_data w spreadsheet_id sheet_name range_name h)) = 0"
    by (simp_all add: listing_calls_def fetch_attempts_def)
qed

text \<open>The run, and a call of the helper, in the world whose key file can never be read.\<close>

theorem authentication_failure_short_circuits_witness:
  "listing_calls (snd (main no_key_world)) = 0 \<and> fetch_attempts (snd (main no_key_world)) = 0
   \<and> listing_calls (snd (get_sheet_data no_key_world SPREADSHEET_ID SHEET_NAME RANGE_NAME [])) = 0
   \<and> fetch_attempts (snd (get_sheet_data no_key_world SPREADSHEET_ID SHEET_NAME RANGE_NAME [])) = 0"
proof -
  let ?e = "AuthenticationError ''key file not found''"
  have first: "authenticate no_key_world [] = (Inl ?e, [Credentials (Some ?e)])"
    by (simp add: authenticate_def no_key_world_def)
  show ?thesis
    using authentication_failure_short_circuits [THEN conjunct1, THEN mp, OF first]
      authentication_failure_short_circuits [THEN conjunct2, THEN mp, OF first,
        of SPREADSHEET_ID SHEET_NAME RANGE_NAME]
    by simp
qed

end
